theory Spec2Isabelle
  imports Main "HOL-Library.AList"
begin

section \<open>The response of the reporting API as the program reads it\<close>

text \<open>
  The program of \<^verbatim>\<open>src/google_analytics/__init__.py\<close> works on the nested dictionaries
  that the reporting API hands back. Every dictionary is a record here. A key that the
  program reads is a field of the record; the field is an \<open>option\<close> where the key may be
  missing (\<open>None\<close> is the missing key). All the other entries of a dictionary, which the
  program never names, are kept in a field \<open>..._other\<close> as an association list of
  uninterpreted JSON values. Strings are lists of characters, one per code point.
\<close>

datatype json =
    JNull
  | JBool bool
  | JNum int
  | JStr string
  | JArr "json list"
  | JObj "(string \<times> json) list"

text \<open>The exceptions that the three operations can raise, as values.\<close>

datatype py_error =
    KeyError string
  | IndexError
  | TypeError
  | AttributeError
  | UnboundLocalError
  | StopIteration
  | ApiError string

text \<open>
  The key \<^verbatim>\<open>'rows'\<close> is the one key that the program itself may set to Python's
  \<^verbatim>\<open>None\<close> (line 199, when the first page came without rows), so its entry has three
  states: no such key, the value \<^verbatim>\<open>None\<close>, or a list.
\<close>

datatype 'a entry = Missing | PyNone | Value 'a

record date_range_values =
  group_values :: "string list option"
  group_other :: "(string \<times> json) list"

record row =
  row_dimensions :: "string list option"
  metrics :: "date_range_values list option"
  row_other :: "(string \<times> json) list"

record metric_header_entry =
  name :: "string option"
  entry_other :: "(string \<times> json) list"

record metric_header =
  metricHeaderEntries :: "metric_header_entry list option"
  metric_header_other :: "(string \<times> json) list"

record column_header =
  dimensions :: "string list option"
  metricHeader :: "metric_header option"
  column_header_other :: "(string \<times> json) list"

record report_data =
  rows :: "row list entry"
  data_other :: "(string \<times> json) list"

record report =
  columnHeader :: "column_header option"
  data :: "report_data option"
  nextPageToken :: "string option"
  report_other :: "(string \<times> json) list"

record response =
  reports :: "report list option"
  response_other :: "(string \<times> json) list"

section \<open>One page request: \<^verbatim>\<open>get_report\<close>\<close>

text \<open>
  The arguments that \<^verbatim>\<open>get_full_report\<close> passes on unchanged to every call of
  \<^verbatim>\<open>get_report\<close>, and the request body that \<^verbatim>\<open>get_report\<close> builds from them (lines
  116-135). The service object is the external collaborator: a function from the request
  and the state of the outside world to an answer (an exception or a response) and the
  new state.
\<close>

record query =
  profile_id :: string
  query_dimensions :: json
  query_metrics :: json
  filters :: json
  date_from :: string
  date_to :: string
  page_size :: int

record report_request =
  viewId :: string
  startDate :: string
  endDate :: string
  request_dimensions :: json
  request_metrics :: json
  samplingLevel :: string
  pageSize :: int
  pageToken :: "string option"
  dimensionFilterClauses :: "json list"

type_synonym 's service = "report_request \<Rightarrow> 's \<Rightarrow> (py_error + response) \<times> 's"

definition request_body :: "query \<Rightarrow> string option \<Rightarrow> report_request" where
  "request_body q next_page_token =
     \<lparr>viewId = profile_id q,
      startDate = date_from q,
      endDate = date_to q,
      request_dimensions = query_dimensions q,
      request_metrics = query_metrics q,
      samplingLevel = ''LARGE'',
      pageSize = page_size q,
      pageToken = next_page_token,
      dimensionFilterClauses = [filters q]\<rparr>"

definition get_report ::
  "'s service \<Rightarrow> query \<Rightarrow> string option \<Rightarrow> 's \<Rightarrow> (py_error + response) \<times> 's" where
  "get_report service q next_page_token = service (request_body q next_page_token)"

section \<open>Pagination: \<^verbatim>\<open>get_full_report\<close>\<close>

text \<open>\<^verbatim>\<open>r.get('reports')[0]\<close>: subscripting \<^verbatim>\<open>None\<close> is a TypeError, an empty list an
  IndexError.\<close>

definition first_report :: "response \<Rightarrow> py_error + report" where
  "first_report r =
     (case reports r of
        None \<Rightarrow> Inl TypeError
      | Some [] \<Rightarrow> Inl IndexError
      | Some (rep # _) \<Rightarrow> Inr rep)"

text \<open>\<^verbatim>\<open>d.get('rows')\<close>: \<^verbatim>\<open>None\<close> for a missing key and for the value \<^verbatim>\<open>None\<close>.\<close>

definition rows_get :: "row list entry \<Rightarrow> row list option" where
  "rows_get e = (case e of Missing \<Rightarrow> None | PyNone \<Rightarrow> None | Value rs \<Rightarrow> Some rs)"

text \<open>\<^verbatim>\<open>r.get('reports')[0].get('data').get('rows')\<close> (lines 183 and 197); \<^verbatim>\<open>.get\<close> on the
  \<^verbatim>\<open>None\<close> of a missing \<^verbatim>\<open>'data'\<close> is an AttributeError.\<close>

definition page_rows :: "response \<Rightarrow> py_error + row list option" where
  "page_rows r =
     (case first_report r of
        Inl e \<Rightarrow> Inl e
      | Inr rep \<Rightarrow>
          (case data rep of
             None \<Rightarrow> Inl AttributeError
           | Some d \<Rightarrow> Inr (rows_get (rows d))))"

text \<open>\<^verbatim>\<open>r.get('reports')[0].get('nextPageToken')\<close> (lines 184 and 196).\<close>

definition page_token :: "response \<Rightarrow> py_error + string option" where
  "page_token r =
     (case first_report r of
        Inl e \<Rightarrow> Inl e
      | Inr rep \<Rightarrow> Inr (nextPageToken rep))"

text \<open>
  The \<^verbatim>\<open>while\<close> loop of lines 186-197, with the local variables \<^verbatim>\<open>rows\<close> (\<open>None\<close> is
  Python's \<^verbatim>\<open>None\<close>) and \<^verbatim>\<open>next_page_token\<close>. The source bounds the number of rounds
  nowhere, so the loop is a partial function: \<open>None\<close> is the run that never returns.
  In line 197 the attribute \<^verbatim>\<open>rows.extend\<close> is looked up before its argument is
  evaluated, and extending by \<^verbatim>\<open>None\<close> is a TypeError.
\<close>

partial_function (option) pages_loop ::
  "'s service \<Rightarrow> query \<Rightarrow> row list option \<Rightarrow> string option \<Rightarrow> 's
     \<Rightarrow> ((py_error + row list option) \<times> 's) option" where
  "pages_loop service q rows_acc next_page_token s =
     (case next_page_token of
        None \<Rightarrow> Some (Inr rows_acc, s)
      | Some t \<Rightarrow>
          (case get_report service q (Some t) s of
             (Inl e, s') \<Rightarrow> Some (Inl e, s')
           | (Inr next_page, s') \<Rightarrow>
               (case page_token next_page of
                  Inl e \<Rightarrow> Some (Inl e, s')
                | Inr token' \<Rightarrow>
                    (case rows_acc of
                       None \<Rightarrow> Some (Inl AttributeError, s')
                     | Some rs \<Rightarrow>
                         (case page_rows next_page of
                            Inl e \<Rightarrow> Some (Inl e, s')
                          | Inr None \<Rightarrow> Some (Inl TypeError, s')
                          | Inr (Some new_rows) \<Rightarrow>
                              pages_loop service q (Some (rs @ new_rows)) token' s')))))"

declare pages_loop.simps [code]

text \<open>\<^verbatim>\<open>response['reports'][0]['data']['rows'] = rows\<close> (line 199).\<close>

definition set_rows :: "response \<Rightarrow> row list option \<Rightarrow> py_error + response" where
  "set_rows r new_rows =
     (case reports r of
        None \<Rightarrow> Inl (KeyError ''reports'')
      | Some [] \<Rightarrow> Inl IndexError
      | Some (rep # rest) \<Rightarrow>
          (case data rep of
             None \<Rightarrow> Inl (KeyError ''data'')
           | Some d \<Rightarrow>
               Inr (r\<lparr>reports := Some
                     (rep\<lparr>data := Some
                        (d\<lparr>rows := (case new_rows of None \<Rightarrow> PyNone | Some rs \<Rightarrow> Value rs)\<rparr>)\<rparr>
                      # rest)\<rparr>)))"

text \<open>
  \<^verbatim>\<open>get_full_report\<close> (lines 139-201). The list \<^verbatim>\<open>rows\<close> is the list object inside the
  first response, extended in place; with responses that share no object with each other
  (each one is parsed afresh from the wire) this is the first response with the grown
  list in it, which is what the model returns.
\<close>

definition get_full_report ::
  "'s service \<Rightarrow> query \<Rightarrow> string option \<Rightarrow> 's \<Rightarrow> ((py_error + response) \<times> 's) option" where
  "get_full_report service q next_page_token s =
     (case get_report service q next_page_token s of
        (Inl e, s1) \<Rightarrow> Some (Inl e, s1)
      | (Inr resp, s1) \<Rightarrow>
          (case page_rows resp of
             Inl e \<Rightarrow> Some (Inl e, s1)
           | Inr rows0 \<Rightarrow>
               (case page_token resp of
                  Inl e \<Rightarrow> Some (Inl e, s1)
                | Inr token \<Rightarrow>
                    (case pages_loop service q rows0 token s1 of
                       None \<Rightarrow> None
                     | Some (Inl e, s2) \<Rightarrow> Some (Inl e, s2)
                     | Some (Inr rows_all, s2) \<Rightarrow> Some (set_rows resp rows_all, s2)))))"

section \<open>Header normalisation: \<^verbatim>\<open>del_ga\<close>\<close>

text \<open>
  The body of the loop of lines 214-216 on one entry of \<^verbatim>\<open>metricHeaderEntries\<close>:
  \<^verbatim>\<open>header['name']\<close> is a KeyError when the key is missing, and the name loses its first
  three characters only if they are \<^verbatim>\<open>ga:\<close>.
\<close>

definition strip_name :: "metric_header_entry \<Rightarrow> py_error + metric_header_entry" where
  "strip_name header =
     (case name header of
        None \<Rightarrow> Inl (KeyError ''name'')
      | Some n \<Rightarrow>
          Inr (if take 3 n = ''ga:'' then header\<lparr>name := Some (drop 3 n)\<rparr> else header))"

fun strip_names :: "metric_header_entry list \<Rightarrow> py_error + metric_header_entry list" where
  "strip_names [] = Inr []"
| "strip_names (header # headers) =
     (case strip_name header of
        Inl e \<Rightarrow> Inl e
      | Inr header' \<Rightarrow>
          (case strip_names headers of
             Inl e \<Rightarrow> Inl e
           | Inr headers' \<Rightarrow> Inr (header' # headers')))"

text \<open>
  \<^verbatim>\<open>del_ga\<close> (lines 203-220). Line 209 reads the metric header entries, lines 211-212
  replace the list of dimension headers by \<^verbatim>\<open>x[3:]\<close> of each of its elements, whatever
  the first three characters are, and the loop renames the metric header entries. Every
  subscript with a missing key is a KeyError. The source changes the response in place
  and returns it; the model returns the changed response, and an exception in the
  middle of the loop returns the exception alone.
\<close>

definition del_ga :: "response \<Rightarrow> py_error + response" where
  "del_ga r =
     (case reports r of
        None \<Rightarrow> Inl (KeyError ''reports'')
      | Some [] \<Rightarrow> Inl IndexError
      | Some (rep # rest) \<Rightarrow>
          (case columnHeader rep of
             None \<Rightarrow> Inl (KeyError ''columnHeader'')
           | Some ch \<Rightarrow>
               (case metricHeader ch of
                  None \<Rightarrow> Inl (KeyError ''metricHeader'')
                | Some mh \<Rightarrow>
                    (case metricHeaderEntries mh of
                       None \<Rightarrow> Inl (KeyError ''metricHeaderEntries'')
                     | Some metric_headers \<Rightarrow>
                         (case dimensions ch of
                            None \<Rightarrow> Inl (KeyError ''dimensions'')
                          | Some ds \<Rightarrow>
                              (case strip_names metric_headers of
                                 Inl e \<Rightarrow> Inl e
                               | Inr metric_headers' \<Rightarrow>
                                   Inr (r\<lparr>reports := Some
                                     (rep\<lparr>columnHeader := Some
                                        (ch\<lparr>dimensions := Some (map (drop 3) ds),
                                            metricHeader := Some
                                              (mh\<lparr>metricHeaderEntries := Some metric_headers'\<rparr>)\<rparr>)\<rparr>
                                      # rest)\<rparr>)))))))"

section \<open>Flattening: \<^verbatim>\<open>response_to_data_frame\<close>\<close>

text \<open>
  A flat record \<^verbatim>\<open>df_row\<close> is a Python dictionary: an association list in the order of
  insertion, where storing under a key that is there already replaces the value in its
  place (\<open>AList.update\<close>). Its keys are dimension headers and the results of
  \<^verbatim>\<open>metricHeader.get('name')\<close>, which is \<^verbatim>\<open>None\<close> for an entry without a name, so a key is
  a \<open>string option\<close>. The table is the list \<^verbatim>\<open>df_raws\<close> that the source hands to
  \<^verbatim>\<open>pd.DataFrame\<close>, one element for each line of the data frame.
\<close>

type_synonym df_row = "(string option \<times> string) list"

text \<open>\<^verbatim>\<open>for k, v in pairs: df_row[k] = v\<close>\<close>

definition store_all :: "df_row \<Rightarrow> (string option \<times> string) list \<Rightarrow> df_row" where
  "store_all df_row pairs = foldl (\<lambda>d (k, v). AList.update k v d) df_row pairs"

text \<open>
  The loop over the metric-value groups of one row (lines 244-247).
  \<^verbatim>\<open>values.get('values')\<close> has no default, and \<^verbatim>\<open>zip\<close> with \<^verbatim>\<open>None\<close> is a TypeError.
\<close>

fun store_groups ::
  "metric_header_entry list \<Rightarrow> date_range_values list \<Rightarrow> df_row \<Rightarrow> py_error + df_row" where
  "store_groups metric_headers [] df_row = Inr df_row"
| "store_groups metric_headers (g # gs) df_row =
     (case group_values g of
        None \<Rightarrow> Inl TypeError
      | Some vs \<Rightarrow>
          store_groups metric_headers gs
            (store_all df_row (zip (map name metric_headers) vs)))"

text \<open>\<^verbatim>\<open>row.get('metrics', [])\<close>\<close>

definition row_groups :: "row \<Rightarrow> date_range_values list" where
  "row_groups rw = (case metrics rw of None \<Rightarrow> [] | Some gs \<Rightarrow> gs)"

text \<open>The body of the loop over the rows (lines 237-247).\<close>

definition flat_record ::
  "string list \<Rightarrow> metric_header_entry list \<Rightarrow> row \<Rightarrow> py_error + df_row" where
  "flat_record dimension_headers metric_headers rw =
     (let dims = (case row_dimensions rw of None \<Rightarrow> [] | Some ds \<Rightarrow> ds);
          date_range_values = row_groups rw
      in store_groups metric_headers date_range_values
           (store_all [] (zip (map Some dimension_headers) dims)))"

text \<open>The loop over the rows (lines 235-249), \<open>df_raws\<close> being the list built so far.\<close>

fun flat_records ::
  "string list \<Rightarrow> metric_header_entry list \<Rightarrow> row list \<Rightarrow> df_row list
     \<Rightarrow> py_error + df_row list" where
  "flat_records dimension_headers metric_headers [] df_raws = Inr df_raws"
| "flat_records dimension_headers metric_headers (rw # rws) df_raws =
     (case flat_record dimension_headers metric_headers rw of
        Inl e \<Rightarrow> Inl e
      | Inr df_row \<Rightarrow>
          flat_records dimension_headers metric_headers rws (df_raws @ [df_row]))"

text \<open>
  The headers of a report as lines 229-231 read them, every \<^verbatim>\<open>.get\<close> with its
  default.
\<close>

definition dimension_headers_of :: "report \<Rightarrow> string list" where
  "dimension_headers_of rep =
     (case columnHeader rep of
        None \<Rightarrow> []
      | Some ch \<Rightarrow> (case dimensions ch of None \<Rightarrow> [] | Some ds \<Rightarrow> ds))"

definition metric_headers_of :: "report \<Rightarrow> metric_header_entry list" where
  "metric_headers_of rep =
     (case columnHeader rep of
        None \<Rightarrow> []
      | Some ch \<Rightarrow>
          (case metricHeader ch of
             None \<Rightarrow> []
           | Some mh \<Rightarrow> (case metricHeaderEntries mh of None \<Rightarrow> [] | Some es \<Rightarrow> es)))"

text \<open>
  The body of the loop over the reports (lines 229-249): \<^verbatim>\<open>df_raws\<close> starts empty for
  each report, \<^verbatim>\<open>report.get('data', {}).get('rows', [])\<close> is the empty list when a key
  is missing, and iterating over a \<^verbatim>\<open>'rows'\<close> that is \<^verbatim>\<open>None\<close> is a TypeError.
\<close>

definition report_records :: "report \<Rightarrow> py_error + df_row list" where
  "report_records rep =
     (case (case data rep of None \<Rightarrow> Missing | Some d \<Rightarrow> rows d) of
        Missing \<Rightarrow> flat_records (dimension_headers_of rep) (metric_headers_of rep) [] []
      | PyNone \<Rightarrow> Inl TypeError
      | Value rws \<Rightarrow> flat_records (dimension_headers_of rep) (metric_headers_of rep) rws [])"

text \<open>
  The loop over the reports (line 228). The variable \<^verbatim>\<open>df_raws\<close> is bound only inside
  the loop: \<open>None\<close> is the variable still unbound.
\<close>

fun reports_loop :: "report list \<Rightarrow> df_row list option \<Rightarrow> py_error + df_row list option" where
  "reports_loop [] df_raws = Inr df_raws"
| "reports_loop (rep # reps) df_raws =
     (case report_records rep of
        Inl e \<Rightarrow> Inl e
      | Inr t \<Rightarrow> reports_loop reps (Some t))"

text \<open>\<^verbatim>\<open>response_to_data_frame\<close> (lines 222-251).\<close>

definition response_to_data_frame :: "response \<Rightarrow> py_error + df_row list" where
  "response_to_data_frame r =
     (case reports_loop (case reports r of None \<Rightarrow> [] | Some reps \<Rightarrow> reps) None of
        Inl e \<Rightarrow> Inl e
      | Inr None \<Rightarrow> Inl UnboundLocalError
      | Inr (Some df_raws) \<Rightarrow> Inr df_raws)"

section \<open>A scripted provider\<close>

text \<open>
  The stand-in for the external service in the properties about pagination: it answers
  the calls from a script, one answer (a page or a failure) for each call in turn, whatever
  the request, and keeps the requests it has received. A call after the end of the script
  fails with StopIteration, as a mock with a list of side effects does.
\<close>

record provider =
  script :: "(py_error + response) list"
  calls :: "report_request list"

definition scripted :: "provider service" where
  "scripted request p =
     (case script p of
        [] \<Rightarrow> (Inl StopIteration, p\<lparr>calls := calls p @ [request]\<rparr>)
      | answer # answers \<Rightarrow> (answer, \<lparr>script = answers, calls = calls p @ [request]\<rparr>))"

text \<open>
  What a page holds for the pagination: whether its first report has a list of rows,
  that list, and its continuation token.
\<close>

definition has_rows :: "response \<Rightarrow> bool" where
  "has_rows r = (case page_rows r of Inr (Some _) \<Rightarrow> True | _ \<Rightarrow> False)"

definition rows_of :: "response \<Rightarrow> row list" where
  "rows_of r = (case page_rows r of Inr (Some rws) \<Rightarrow> rws | _ \<Rightarrow> [])"

definition token_of :: "response \<Rightarrow> string option" where
  "token_of r = (case page_token r of Inr token \<Rightarrow> token | Inl _ \<Rightarrow> None)"

definition header_of :: "response \<Rightarrow> column_header option" where
  "header_of r = (case first_report r of Inr rep \<Rightarrow> columnHeader rep | Inl _ \<Rightarrow> None)"

section \<open>Shapes of the input that the properties speak about\<close>

text \<open>The rows of a report as \<^verbatim>\<open>response_to_data_frame\<close> iterates over them.\<close>

definition report_rows :: "report \<Rightarrow> row list" where
  "report_rows rep =
     (case data rep of
        None \<Rightarrow> []
      | Some d \<Rightarrow> (case rows d of Value rws \<Rightarrow> rws | _ \<Rightarrow> []))"

text \<open>
  A report in which \<^verbatim>\<open>'rows'\<close> is not \<^verbatim>\<open>None\<close> and every metric-value group of every
  row has its \<^verbatim>\<open>'values'\<close>: the report of the data model, where a group is a sequence
  of values.
\<close>

definition flattenable :: "report \<Rightarrow> bool" where
  "flattenable rep \<longleftrightarrow>
     (case data rep of None \<Rightarrow> True | Some d \<Rightarrow> rows d \<noteq> PyNone)
     \<and> (\<forall>rw\<in>set (report_rows rep). \<forall>g\<in>set (row_groups rw). group_values g \<noteq> None)"

text \<open>
  A response with the dimension header list and the names of the metric header entries of
  its first report blanked out: two responses with the same image differ in nothing
  else.
\<close>

definition blank_names :: "metric_header \<Rightarrow> metric_header" where
  "blank_names mh =
     mh\<lparr>metricHeaderEntries := map_option (map (\<lambda>e. e\<lparr>name := None\<rparr>)) (metricHeaderEntries mh)\<rparr>"

definition blank_column_header :: "column_header \<Rightarrow> column_header" where
  "blank_column_header ch =
     ch\<lparr>dimensions := None, metricHeader := map_option blank_names (metricHeader ch)\<rparr>"

definition blank_headers :: "response \<Rightarrow> response" where
  "blank_headers r =
     (case reports r of
        Some (rep # rest) \<Rightarrow>
          r\<lparr>reports := Some
             (rep\<lparr>columnHeader := map_option blank_column_header (columnHeader rep)\<rparr> # rest)\<rparr>
      | _ \<Rightarrow> r)"

section \<open>Example data\<close>

definition example_query :: query where
  "example_query =
     \<lparr>profile_id = ''1'',
      query_dimensions = JArr [JObj [(''name'', JStr ''ga:date'')]],
      query_metrics = JArr [JObj [(''expression'', JStr ''ga:sessions'')]],
      filters = JObj [(''operator'', JStr ''OR'')],
      date_from = ''2020-09-01'',
      date_to = ''2020-09-01'',
      page_size = 1000\<rparr>"

definition example_row :: "string list \<Rightarrow> string list list \<Rightarrow> row" where
  "example_row ds groups =
     \<lparr>row_dimensions = Some ds,
      metrics = Some (map (\<lambda>vs. \<lparr>group_values = Some vs, group_other = []\<rparr>) groups),
      row_other = []\<rparr>"

definition example_report ::
  "string list \<Rightarrow> string list \<Rightarrow> row list \<Rightarrow> string option \<Rightarrow> report" where
  "example_report dimension_headers metric_names rws token =
     \<lparr>columnHeader = Some
        \<lparr>dimensions = Some dimension_headers,
         metricHeader = Some
           \<lparr>metricHeaderEntries = Some
              (map (\<lambda>n. \<lparr>name = Some n, entry_other = [(''type'', JStr ''INTEGER'')]\<rparr>)
                 metric_names),
            metric_header_other = []\<rparr>,
         column_header_other = []\<rparr>,
      data = Some \<lparr>rows = Value rws, data_other = []\<rparr>,
      nextPageToken = token,
      report_other = []\<rparr>"

definition example_page ::
  "string list \<Rightarrow> string list \<Rightarrow> row list \<Rightarrow> string option \<Rightarrow> response" where
  "example_page dimension_headers metric_names rws token =
     \<lparr>reports = Some [example_report dimension_headers metric_names rws token],
      response_other = []\<rparr>"

text \<open>
  The response to a query that matches nothing: the first report has its headers and its
  data, and the data has the entry for \<^verbatim>\<open>'rows'\<close> that is given (the service leaves
  the key out; \<^verbatim>\<open>get_full_report\<close> puts \<^verbatim>\<open>None\<close> there).
\<close>

definition example_empty_page :: "row list entry \<Rightarrow> response" where
  "example_empty_page rows_entry =
     \<lparr>reports = Some
        [\<lparr>columnHeader = Some
            \<lparr>dimensions = Some [''ga:date''],
             metricHeader = Some
               \<lparr>metricHeaderEntries = Some
                  [\<lparr>name = Some ''ga:sessions'',
                    entry_other = [(''type'', JStr ''INTEGER'')]\<rparr>],
                metric_header_other = []\<rparr>,
             column_header_other = []\<rparr>,
          data = Some
            \<lparr>rows = rows_entry,
             data_other = [(''totals'', JArr [JObj [(''values'', JArr [JStr ''0''])]])]\<rparr>,
          nextPageToken = None,
          report_other = []\<rparr>],
      response_other = []\<rparr>"

section \<open>Pagination over a scripted provider\<close>

subsection \<open>One round of the loop\<close>

lemma has_rows_page_rows: "has_rows r \<Longrightarrow> page_rows r = Inr (Some (rows_of r))"
  by (simp add: has_rows_def rows_of_def split: sum.splits option.splits)

lemma has_rows_page_token: "has_rows r \<Longrightarrow> page_token r = Inr (token_of r)"
  by (auto simp: has_rows_def token_of_def page_rows_def page_token_def
      split: sum.splits option.splits)

lemma has_rows_shape:
  assumes "has_rows p"
  obtains rep rest d rws where "reports p = Some (rep # rest)" and "data rep = Some d"
    and "rows d = Value rws"
  using assms
  by (auto simp: has_rows_def page_rows_def first_report_def rows_get_def
      split: option.splits list.splits sum.splits entry.splits)

lemma set_rows_has_rows:
  assumes "has_rows p"
  shows "\<exists>merged. set_rows p (Some rws) = Inr merged
           \<and> page_rows merged = Inr (Some rws)
           \<and> header_of merged = header_of p
           \<and> token_of merged = token_of p"
proof -
  from assms obtain rep rest d rws0 where
    shape: "reports p = Some (rep # rest)" "data rep = Some d" "rows d = Value rws0"
    by (rule has_rows_shape)
  show ?thesis
    by (simp add: shape set_rows_def page_rows_def first_report_def header_of_def
          token_of_def page_token_def rows_get_def)
qed

lemma pages_loop_done: "pages_loop service q rows_acc None s = Some (Inr rows_acc, s)"
  by (subst pages_loop.simps) simp

lemma pages_loop_failure:
  "pages_loop scripted q rows_acc (Some t) \<lparr>script = Inl e # answers, calls = cs\<rparr>
     = Some (Inl e, \<lparr>script = answers, calls = cs @ [request_body q (Some t)]\<rparr>)"
  by (subst pages_loop.simps) (simp add: get_report_def scripted_def)

lemma pages_loop_exhausted:
  "pages_loop scripted q rows_acc (Some t) \<lparr>script = [], calls = cs\<rparr>
     = Some (Inl StopIteration, \<lparr>script = [], calls = cs @ [request_body q (Some t)]\<rparr>)"
  by (subst pages_loop.simps) (simp add: get_report_def scripted_def)

lemma pages_loop_page:
  assumes "has_rows p"
  shows "pages_loop scripted q (Some rs) (Some t) \<lparr>script = Inr p # answers, calls = cs\<rparr>
     = pages_loop scripted q (Some (rs @ rows_of p)) (token_of p)
         \<lparr>script = answers, calls = cs @ [request_body q (Some t)]\<rparr>"
  by (subst pages_loop.simps)
     (simp add: get_report_def scripted_def has_rows_page_rows [OF assms]
        has_rows_page_token [OF assms])

subsection \<open>Runs of the loop\<close>

lemma pages_loop_complete:
  assumes "\<forall>p\<in>set ps. has_rows p \<and> token_of p \<noteq> None"
    and "has_rows pl" and "token_of pl = None"
  shows "pages_loop scripted q (Some rs) (Some t)
           \<lparr>script = map Inr ps @ Inr pl # answers, calls = cs\<rparr>
     = Some (Inr (Some (rs @ concat (map rows_of ps) @ rows_of pl)),
             \<lparr>script = answers,
              calls = cs @ map (request_body q) (Some t # map token_of ps)\<rparr>)"
  using assms(1)
proof (induction ps arbitrary: rs t cs)
  case Nil
  then show ?case
    by (simp add: pages_loop_page [OF assms(2)] assms(3) pages_loop_done)
next
  case (Cons p ps)
  from Cons.prems obtain t' where t': "token_of p = Some t'" by auto
  from Cons.prems have p: "has_rows p" and rest: "\<forall>x\<in>set ps. has_rows x \<and> token_of x \<noteq> None"
    by simp_all
  show ?case
    using Cons.IH [OF rest, of "rs @ rows_of p" t' "cs @ [request_body q (Some t)]"]
    by (simp add: pages_loop_page [OF p] t')
qed

lemma pages_loop_aborted:
  assumes "\<forall>p\<in>set ps. has_rows p \<and> token_of p \<noteq> None"
  shows "pages_loop scripted q (Some rs) (Some t)
           \<lparr>script = map Inr ps @ Inl e # answers, calls = cs\<rparr>
     = Some (Inl e,
             \<lparr>script = answers,
              calls = cs @ map (request_body q) (Some t # map token_of ps)\<rparr>)"
  using assms
proof (induction ps arbitrary: rs t cs)
  case Nil
  then show ?case by (simp add: pages_loop_failure)
next
  case (Cons p ps)
  from Cons.prems obtain t' where t': "token_of p = Some t'" by auto
  from Cons.prems have p: "has_rows p" and rest: "\<forall>x\<in>set ps. has_rows x \<and> token_of x \<noteq> None"
    by simp_all
  show ?case
    using Cons.IH [OF rest, of "rs @ rows_of p" t' "cs @ [request_body q (Some t)]"]
    by (simp add: pages_loop_page [OF p] t')
qed

lemma pages_loop_calls:
  assumes "\<forall>p\<in>set pages. has_rows p"
  shows "map_option (calls \<circ> snd)
           (pages_loop scripted q (Some rs) token \<lparr>script = map Inr pages, calls = cs\<rparr>)
     = Some (cs @ map (request_body q)
          (case token of
             None \<Rightarrow> []
           | Some t \<Rightarrow> Some t # map token_of (takeWhile (\<lambda>p. token_of p \<noteq> None) pages)))"
  using assms
proof (induction pages arbitrary: rs token cs)
  case Nil
  then show ?case
    by (cases token) (simp_all add: pages_loop_done pages_loop_exhausted)
next
  case (Cons p pages)
  have p: "has_rows p" and rest: "\<forall>x\<in>set pages. has_rows x" using Cons.prems by simp_all
  show ?case
  proof (cases token)
    case None
    then show ?thesis by (simp add: pages_loop_done)
  next
    case (Some t)
    show ?thesis
      using Cons.IH [OF rest, of "rs @ rows_of p" "token_of p" "cs @ [request_body q (Some t)]"]
      by (cases "token_of p") (simp_all add: Some pages_loop_page [OF p])
  qed
qed

subsection \<open>Runs of \<^verbatim>\<open>get_full_report\<close>\<close>

lemma get_full_report_first:
  assumes "has_rows p"
  shows "get_full_report scripted q token \<lparr>script = Inr p # answers, calls = cs\<rparr>
     = (case pages_loop scripted q (Some (rows_of p)) (token_of p)
               \<lparr>script = answers, calls = cs @ [request_body q token]\<rparr> of
          None \<Rightarrow> None
        | Some (Inl e, s2) \<Rightarrow> Some (Inl e, s2)
        | Some (Inr rows_all, s2) \<Rightarrow> Some (set_rows p rows_all, s2))"
  by (simp add: get_full_report_def get_report_def scripted_def
        has_rows_page_rows [OF assms] has_rows_page_token [OF assms])

lemma get_full_report_failure:
  "get_full_report scripted q token \<lparr>script = Inl e # answers, calls = cs\<rparr>
     = Some (Inl e, \<lparr>script = answers, calls = cs @ [request_body q token]\<rparr>)"
  by (simp add: get_full_report_def get_report_def scripted_def)

lemma get_full_report_exhausted:
  "get_full_report scripted q token \<lparr>script = [], calls = cs\<rparr>
     = Some (Inl StopIteration, \<lparr>script = [], calls = cs @ [request_body q token]\<rparr>)"
  by (simp add: get_full_report_def get_report_def scripted_def)

lemma full_report_run:
  assumes ne: "pages \<noteq> []"
    and ok: "\<forall>p\<in>set pages. has_rows p"
    and more: "\<forall>p\<in>set (butlast pages). token_of p \<noteq> None"
    and fin: "token_of (last pages) = None"
  shows "get_full_report scripted q token \<lparr>script = map Inr pages @ answers, calls = cs\<rparr>
     = Some (set_rows (hd pages) (Some (concat (map rows_of pages))),
             \<lparr>script = answers,
              calls = cs @ map (request_body q) (token # map token_of (butlast pages))\<rparr>)"
proof (cases pages)
  case Nil
  with ne show ?thesis by simp
next
  case (Cons p ps)
  have p: "has_rows p" using ok Cons by simp
  show ?thesis
  proof (cases "ps = []")
    case True
    with Cons fin have "token_of p = None" by simp
    then show ?thesis
      using Cons True by (simp add: get_full_report_first [OF p] pages_loop_done)
  next
    case False
    define mid where "mid = butlast ps"
    define lst where "lst = last ps"
    have ps: "ps = mid @ [lst]" using False by (simp add: mid_def lst_def)
    have bl: "butlast pages = p # mid" using Cons ps by (simp add: butlast_append)
    from more bl obtain t where t: "token_of p = Some t" by auto
    have mid_ok: "\<forall>x\<in>set mid. has_rows x \<and> token_of x \<noteq> None"
      using ok more bl Cons ps by auto
    have lst_ok: "has_rows lst" using ok Cons ps by simp
    have lst_fin: "token_of lst = None" using fin Cons ps by simp
    have loop: "pages_loop scripted q (Some (rows_of p)) (Some t)
          \<lparr>script = map Inr mid @ Inr lst # answers, calls = cs @ [request_body q token]\<rparr>
        = Some (Inr (Some (rows_of p @ concat (map rows_of mid) @ rows_of lst)),
            \<lparr>script = answers,
             calls = (cs @ [request_body q token])
               @ map (request_body q) (Some t # map token_of mid)\<rparr>)"
      by (rule pages_loop_complete [OF mid_ok lst_ok lst_fin])
    show ?thesis
      using loop Cons ps bl t by (simp add: get_full_report_first [OF p])
  qed
qed

lemma error_run:
  assumes "\<forall>p\<in>set ps. has_rows p \<and> token_of p \<noteq> None"
  shows "get_full_report scripted q token \<lparr>script = map Inr ps @ Inl e # answers, calls = cs\<rparr>
     = Some (Inl e, \<lparr>script = answers,
                     calls = cs @ map (request_body q) (token # map token_of ps)\<rparr>)"
proof (cases ps)
  case Nil
  then show ?thesis by (simp add: get_full_report_failure)
next
  case (Cons p rest)
  from assms Cons obtain t where t: "token_of p = Some t" by auto
  have p: "has_rows p" using assms Cons by simp
  have rest: "\<forall>x\<in>set rest. has_rows x \<and> token_of x \<noteq> None" using assms Cons by simp
  show ?thesis
    using Cons t
    by (simp add: get_full_report_first [OF p] pages_loop_aborted [OF rest])
qed

subsection \<open>The example pages\<close>

lemma example_page_has_rows: "has_rows (example_page dhs mns rws token)"
  by (simp add: has_rows_def page_rows_def first_report_def example_page_def
        example_report_def rows_get_def)

lemma example_page_rows_of: "rows_of (example_page dhs mns rws token) = rws"
  by (simp add: rows_of_def page_rows_def first_report_def example_page_def
        example_report_def rows_get_def)

lemma example_page_token_of: "token_of (example_page dhs mns rws token) = token"
  by (simp add: token_of_def page_token_def first_report_def example_page_def
        example_report_def)

lemma example_page_set_rows:
  "set_rows (example_page dhs mns rws token) (Some rws') = Inr (example_page dhs mns rws' token)"
  by (simp add: set_rows_def example_page_def example_report_def)

lemma example_row_flattenable:
  "\<forall>g\<in>set (row_groups (example_row ds gs)). \<exists>vs. group_values g = Some vs"
  by (auto simp: example_row_def row_groups_def)

lemma example_report_flattenable_iff:
  "flattenable (example_report dhs mns rws token)
     \<longleftrightarrow> (\<forall>rw\<in>set rws. \<forall>g\<in>set (row_groups rw). group_values g \<noteq> None)"
  by (simp add: flattenable_def example_report_def report_rows_def)

lemma example_report_rows: "report_rows (example_report dhs mns rws token) = rws"
  by (simp add: example_report_def report_rows_def)

section \<open>Flattening: what a record holds\<close>

lemma map_of_store_all: "map_of (store_all d kvs) = map_of d ++ map_of (rev kvs)"
proof (induction kvs arbitrary: d)
  case Nil
  then show ?case by (simp add: store_all_def)
next
  case (Cons kv kvs)
  obtain k v where kv: "kv = (k, v)" by (cases kv)
  have "map_of (store_all d (kv # kvs)) = map_of (store_all (AList.update k v d) kvs)"
    by (simp add: store_all_def kv)
  also have "\<dots> = (map_of d)(k \<mapsto> v) ++ map_of (rev kvs)"
    by (simp only: Cons.IH update_conv')
  also have "\<dots> = map_of d ++ map_of (rev (kv # kvs))"
    by (simp add: kv map_add_upd_left fun_eq_iff map_add_def split: option.splits)
  finally show ?case .
qed

lemma store_groups_snoc:
  "store_groups mhs (gs @ [g]) d =
     (case store_groups mhs gs d of
        Inl e \<Rightarrow> Inl e
      | Inr d' \<Rightarrow>
          (case group_values g of
             None \<Rightarrow> Inl TypeError
           | Some vs \<Rightarrow> Inr (store_all d' (zip (map name mhs) vs))))"
  by (induction gs arbitrary: d) (simp_all split: option.splits)

lemma store_groups_returns:
  assumes "\<forall>g\<in>set gs. group_values g \<noteq> None"
  shows "\<exists>d'. store_groups mhs gs d = Inr d'"
  using assms by (induction gs arbitrary: d) auto

lemma store_groups_last:
  assumes "store_groups mhs gs d = Inr rec" and "gs \<noteq> []"
    and "group_values (last gs) = Some vs"
  shows "\<exists>d'. rec = store_all d' (zip (map name mhs) vs)"
proof -
  from assms(2) have gs: "gs = butlast gs @ [last gs]" by simp
  from assms(1) show ?thesis
    by (subst (asm) gs) (auto simp: store_groups_snoc assms(3) split: sum.splits)
qed

lemma map_of_rev_zip_covers:
  assumes "k \<in> set ks" and "length ks \<le> length vs"
  shows "map_of (rev (zip ks vs)) k \<noteq> None"
proof -
  have "k \<in> fst ` set (zip ks vs)"
  proof -
    from assms(1) obtain j where j: "j < length ks" "ks ! j = k" by (auto simp: in_set_conv_nth)
    with assms(2) have "(k, vs ! j) \<in> set (zip ks vs)"
      by (auto simp: in_set_zip intro!: exI [of _ j])
    then show ?thesis by force
  qed
  then show ?thesis by (simp add: map_of_eq_None_iff)
qed

lemma map_of_rev_zip_nth:
  assumes "distinct ks" and "j < length ks" and "length ks \<le> length vs"
  shows "map_of (rev (zip ks vs)) (ks ! j) = Some (vs ! j)"
proof -
  have d: "distinct (map fst (rev (zip ks vs)))"
    using assms(1,3) by (simp add: rev_map [symmetric] map_fst_zip_take)
  have "(ks ! j, vs ! j) \<in> set (rev (zip ks vs))"
    using assms(2,3) by (auto simp: in_set_zip intro!: exI [of _ j])
  with d show ?thesis by simp
qed

lemma last_group_decides:
  assumes "store_groups mhs gs d = Inr rec" and "gs \<noteq> []"
    and "group_values (last gs) = Some vs" and "length mhs \<le> length vs"
    and "k \<in> set (map name mhs)"
  shows "map_of rec k = map_of (rev (zip (map name mhs) vs)) k"
proof -
  from store_groups_last [OF assms(1-3)] obtain d' where
    rec: "rec = store_all d' (zip (map name mhs) vs)" ..
  have "map_of (rev (zip (map name mhs) vs)) k \<noteq> None"
    using assms(4,5) by (intro map_of_rev_zip_covers) simp_all
  then show ?thesis
    by (auto simp: rec map_of_store_all map_add_def split: option.splits)
qed

section \<open>Flattening: the table of a response\<close>

lemma flat_records_returns:
  assumes "\<forall>rw\<in>set rws. \<forall>g\<in>set (row_groups rw). group_values g \<noteq> None"
  shows "\<exists>t. flat_records dhs mhs rws acc = Inr (acc @ t) \<and> length t = length rws
           \<and> (\<forall>i<length rws. flat_record dhs mhs (rws ! i) = Inr (t ! i))"
  using assms
proof (induction rws arbitrary: acc)
  case Nil
  then show ?case by simp
next
  case (Cons rw rws)
  from Cons.prems have "\<forall>g\<in>set (row_groups rw). group_values g \<noteq> None" by simp
  then obtain d where d: "flat_record dhs mhs rw = Inr d"
    unfolding flat_record_def Let_def using store_groups_returns by blast
  from Cons.prems have rest: "\<forall>rw\<in>set rws. \<forall>g\<in>set (row_groups rw). group_values g \<noteq> None"
    by simp
  from Cons.IH [OF rest, of "acc @ [d]"] obtain t where
    t: "flat_records dhs mhs rws (acc @ [d]) = Inr ((acc @ [d]) @ t)" "length t = length rws"
       "\<forall>i<length rws. flat_record dhs mhs (rws ! i) = Inr (t ! i)"
    by blast
  have "\<forall>i<length (rw # rws). flat_record dhs mhs ((rw # rws) ! i) = Inr ((d # t) ! i)"
    using d t(3) by (auto simp: nth_Cons split: nat.splits)
  then show ?case
    using d t(1,2) by (intro exI [of _ "d # t"]) simp
qed

lemma report_records_returns:
  assumes "flattenable rep"
  shows "\<exists>t. report_records rep = Inr t \<and> length t = length (report_rows rep)
           \<and> (\<forall>i<length (report_rows rep).
                 flat_record (dimension_headers_of rep) (metric_headers_of rep)
                   (report_rows rep ! i) = Inr (t ! i))"
proof -
  from assms have ok: "\<forall>rw\<in>set (report_rows rep). \<forall>g\<in>set (row_groups rw). group_values g \<noteq> None"
    and nn: "(case data rep of None \<Rightarrow> True | Some d \<Rightarrow> rows d \<noteq> PyNone)"
    by (simp_all add: flattenable_def)
  from flat_records_returns [OF ok, of "dimension_headers_of rep" "metric_headers_of rep" "[]"]
  obtain t where t: "flat_records (dimension_headers_of rep) (metric_headers_of rep)
        (report_rows rep) [] = Inr t" "length t = length (report_rows rep)"
      "\<forall>i<length (report_rows rep).
         flat_record (dimension_headers_of rep) (metric_headers_of rep) (report_rows rep ! i)
           = Inr (t ! i)"
    by auto
  have "report_records rep
      = flat_records (dimension_headers_of rep) (metric_headers_of rep) (report_rows rep) []"
    using nn by (simp add: report_records_def report_rows_def split: option.splits entry.splits)
  with t show ?thesis by simp
qed

lemma reports_loop_last:
  assumes "\<forall>rep\<in>set reps. flattenable rep"
  shows "reports_loop (reps @ [rep]) df =
           (case report_records rep of Inl e \<Rightarrow> Inl e | Inr t \<Rightarrow> Inr (Some t))"
  using assms
proof (induction reps arbitrary: df)
  case Nil
  then show ?case by (simp split: sum.splits)
next
  case (Cons a reps)
  from Cons.prems have "flattenable a" by simp
  then obtain t where "report_records a = Inr t" using report_records_returns by blast
  with Cons show ?case by simp
qed

lemma last_report_decides:
  assumes "reports r = Some reps" and "reps \<noteq> []"
    and "\<forall>rep\<in>set (butlast reps). flattenable rep"
  shows "response_to_data_frame r = report_records (last reps)"
proof -
  have "reports_loop (butlast reps @ [last reps]) None =
          (case report_records (last reps) of Inl e \<Rightarrow> Inl e | Inr t \<Rightarrow> Inr (Some t))"
    by (rule reports_loop_last [OF assms(3)])
  then show ?thesis
    using assms(1,2) by (simp add: response_to_data_frame_def split: sum.splits)
qed

text \<open>
  Why a report that flattens must not have \<^verbatim>\<open>None\<close> for its rows: a single page that
  comes without the key \<^verbatim>\<open>'rows'\<close> flattens to the empty table as it is, but
  \<^verbatim>\<open>get_full_report\<close> stores \<^verbatim>\<open>None\<close> under that key (line 199), and the loop over the
  rows of the merged response is then a TypeError.
\<close>

lemma page_without_rows_key:
  assumes "reports p = Some [rep]" and "data rep = Some d" and "rows d = Missing"
    and "nextPageToken rep = None"
  shows "get_full_report scripted q token \<lparr>script = [Inr p], calls = []\<rparr>
           = Some (Inr (p\<lparr>reports := Some [rep\<lparr>data := Some (d\<lparr>rows := PyNone\<rparr>)\<rparr>]\<rparr>),
                   \<lparr>script = [], calls = [request_body q token]\<rparr>)"
    and "response_to_data_frame p = Inr []"
    and "response_to_data_frame (p\<lparr>reports := Some [rep\<lparr>data := Some (d\<lparr>rows := PyNone\<rparr>)\<rparr>]\<rparr>)
           = Inl TypeError"
proof -
  show "get_full_report scripted q token \<lparr>script = [Inr p], calls = []\<rparr>
           = Some (Inr (p\<lparr>reports := Some [rep\<lparr>data := Some (d\<lparr>rows := PyNone\<rparr>)\<rparr>]\<rparr>),
                   \<lparr>script = [], calls = [request_body q token]\<rparr>)"
    by (simp add: get_full_report_def get_report_def scripted_def page_rows_def page_token_def
          first_report_def rows_get_def pages_loop_done set_rows_def assms)
  show "response_to_data_frame p = Inr []"
    by (simp add: response_to_data_frame_def report_records_def assms)
  show "response_to_data_frame (p\<lparr>reports := Some [rep\<lparr>data := Some (d\<lparr>rows := PyNone\<rparr>)\<rparr>]\<rparr>)
           = Inl TypeError"
    by (simp add: response_to_data_frame_def report_records_def)
qed

section \<open>Header normalisation: what \<^verbatim>\<open>del_ga\<close> touches\<close>

lemma strip_name_blank:
  assumes "strip_name header = Inr header'"
  shows "header'\<lparr>name := None\<rparr> = header\<lparr>name := None\<rparr>"
  using assms by (auto simp: strip_name_def split: option.splits if_splits)

lemma strip_names_blank:
  assumes "strip_names headers = Inr headers'"
  shows "map (\<lambda>e. e\<lparr>name := None\<rparr>) headers' = map (\<lambda>e. e\<lparr>name := None\<rparr>) headers"
  using assms
proof (induction headers arbitrary: headers')
  case Nil
  then show ?case by simp
next
  case (Cons h hs)
  from Cons.prems obtain h' hs' where
    parts: "strip_name h = Inr h'" "strip_names hs = Inr hs'" "headers' = h' # hs'"
    by (auto split: sum.splits)
  show ?case
    using Cons.IH [OF parts(2)] strip_name_blank [OF parts(1)] by (simp add: parts(3))
qed

lemma del_ga_shape:
  assumes "del_ga r = Inr r'"
  obtains rep rest ch mh es ds es' where
    "reports r = Some (rep # rest)" and "columnHeader rep = Some ch"
    and "metricHeader ch = Some mh" and "metricHeaderEntries mh = Some es"
    and "dimensions ch = Some ds" and "strip_names es = Inr es'"
    and "r' = r\<lparr>reports := Some
           (rep\<lparr>columnHeader := Some
              (ch\<lparr>dimensions := Some (map (drop 3) ds),
                  metricHeader := Some (mh\<lparr>metricHeaderEntries := Some es'\<rparr>)\<rparr>)\<rparr>
            # rest)\<rparr>"
  using assms
  by (auto simp: del_ga_def split: option.splits list.splits sum.splits)

section \<open>The properties of the pagination\<close>

text \<open>
  C1 (pagination completeness and fetch count). A provider answers with the pages
  \<open>pages\<close>, every page with a list of rows, every page but the last with a continuation
  token and the last without one. Then \<^verbatim>\<open>get_full_report\<close> returns, its result is a
  response whose list of rows is the rows of all the pages one after the other in the
  order of the pages, and it has made as many calls as there are pages: the first with
  the token it was given, each further one with the token of the page before, and none
  after the last page (the answers scripted after it are all still there). With a single
  page, whose token is missing, that is one call.
\<close>

theorem pagination_completeness:
  assumes "pages \<noteq> []"
    and "\<forall>p\<in>set pages. has_rows p"
    and "\<forall>p\<in>set (butlast pages). token_of p \<noteq> None"
    and "token_of (last pages) = None"
  shows "\<exists>merged st.
           get_full_report scripted q token \<lparr>script = map Inr pages @ answers, calls = []\<rparr>
             = Some (Inr merged, st)
           \<and> page_rows merged = Inr (Some (concat (map rows_of pages)))
           \<and> length (calls st) = length pages
           \<and> calls st = map (request_body q) (token # map token_of (butlast pages))
           \<and> script st = answers"
proof -
  have first: "has_rows (hd pages)" using assms(1,2) by simp
  obtain merged where m: "set_rows (hd pages) (Some (concat (map rows_of pages))) = Inr merged"
      "page_rows merged = Inr (Some (concat (map rows_of pages)))"
    using set_rows_has_rows [OF first] by blast
  show ?thesis
    using assms(1) by (simp add: full_report_run [OF assms] m)
qed

theorem pagination_completeness_witness:
  "\<exists>merged st.
     get_full_report scripted example_query None
       \<lparr>script = map Inr
          [example_page [''ga:date''] [''ga:sessions''] [example_row [''20200901''] [[''42'']]] (Some ''1000''),
           example_page [''ga:date''] [''ga:sessions''] [example_row [''20200902''] [[''17'']]] (Some ''2000''),
           example_page [''ga:date''] [''ga:sessions''] [example_row [''20200903''] [[''5'']]] None] @ [],
        calls = []\<rparr> = Some (Inr merged, st)
     \<and> page_rows merged = Inr (Some
          [example_row [''20200901''] [[''42'']], example_row [''20200902''] [[''17'']],
           example_row [''20200903''] [[''5'']]])
     \<and> length (calls st) = 3
     \<and> calls st = [request_body example_query None, request_body example_query (Some ''1000''),
          request_body example_query (Some ''2000'')]
     \<and> script st = []"
  using pagination_completeness [of
    "[example_page [''ga:date''] [''ga:sessions''] [example_row [''20200901''] [[''42'']]] (Some ''1000''),
      example_page [''ga:date''] [''ga:sessions''] [example_row [''20200902''] [[''17'']]] (Some ''2000''),
      example_page [''ga:date''] [''ga:sessions''] [example_row [''20200903''] [[''5'']]] None]"
    example_query None "[]"]
  by (simp add: example_page_has_rows example_page_rows_of example_page_token_of
        numeral_3_eq_3)

text \<open>
  C3 (the condition of the loop), as the source has it: after each page
  \<^verbatim>\<open>get_full_report\<close> asks for another one exactly if the token of that page is not
  \<^verbatim>\<open>None\<close>. For a provider that answers with pages that all have a list of rows, the
  calls made are the first call and one call for each page of the longest run of pages,
  from the first on, whose token is not \<^verbatim>\<open>None\<close>, each with the token of that page. The
  empty string is a token like any other.
\<close>

theorem fetch_while_token_not_None:
  assumes "\<forall>p\<in>set pages. has_rows p"
  shows "map_option (calls \<circ> snd)
           (get_full_report scripted q token \<lparr>script = map Inr pages, calls = []\<rparr>)
     = Some (map (request_body q)
          (token # map token_of (takeWhile (\<lambda>p. token_of p \<noteq> None) pages)))"
proof (cases pages)
  case Nil
  then show ?thesis by (simp add: get_full_report_exhausted)
next
  case (Cons p ps)
  have p: "has_rows p" and rest: "\<forall>x\<in>set ps. has_rows x" using assms Cons by simp_all
  have "map_option (calls \<circ> snd)
          (pages_loop scripted q (Some (rows_of p)) (token_of p)
             \<lparr>script = map Inr ps, calls = [] @ [request_body q token]\<rparr>)
      = Some (([] @ [request_body q token]) @ map (request_body q)
          (case token_of p of
             None \<Rightarrow> []
           | Some t \<Rightarrow> Some t # map token_of (takeWhile (\<lambda>p. token_of p \<noteq> None) ps)))"
    by (rule pages_loop_calls [OF rest])
  then show ?thesis
    using Cons
    by (cases "token_of p")
       (auto simp: get_full_report_first [OF p] split: option.splits sum.splits prod.splits)
qed

theorem fetch_while_token_not_None_witness:
  "map_option (calls \<circ> snd)
     (get_full_report scripted example_query None
        \<lparr>script = map Inr
           [example_page [''ga:date''] [''ga:sessions''] [example_row [''20200901''] [[''42'']]] (Some ''1000''),
            example_page [''ga:date''] [''ga:sessions''] [example_row [''20200902''] [[''17'']]] None,
            example_page [''ga:date''] [''ga:sessions''] [example_row [''20200903''] [[''5'']]] None],
         calls = []\<rparr>)
   = Some [request_body example_query None, request_body example_query (Some ''1000'')]"
  using fetch_while_token_not_None [of
    "[example_page [''ga:date''] [''ga:sessions''] [example_row [''20200901''] [[''42'']]] (Some ''1000''),
      example_page [''ga:date''] [''ga:sessions''] [example_row [''20200902''] [[''17'']]] None,
      example_page [''ga:date''] [''ga:sessions''] [example_row [''20200903''] [[''5'']]] None]"
    example_query None]
  by (simp add: example_page_has_rows example_page_token_of)

text \<open>
  A first page whose continuation token is the empty string does not end the
  pagination: a second call is made, with the empty string as its page token.
\<close>

theorem empty_token_counterexample:
  "map_option (calls \<circ> snd)
     (get_full_report scripted example_query None
        \<lparr>script =
           [Inr (example_page [''ga:date''] [''ga:sessions''] [example_row [''20200901''] [[''42'']]] (Some '''')),
            Inr (example_page [''ga:date''] [''ga:sessions''] [example_row [''20200902''] [[''17'']]] None)],
         calls = []\<rparr>)
   = Some [request_body example_query None, request_body example_query (Some '''')]"
  by (simp add: get_full_report_first example_page_has_rows example_page_rows_of
        example_page_token_of pages_loop_page pages_loop_done example_page_set_rows)




text \<open>
  C7 (error propagation). A provider answers with pages that all have rows and a
  continuation token, and then fails with the error \<open>e\<close>. Then \<^verbatim>\<open>get_full_report\<close>
  returns that error and no response, so the rows of the pages before are lost; the call
  that failed is the last one it made, and the answers scripted after the failure are
  all still there. A failure on page 2 of 3 comes back after two calls.
\<close>

theorem fetch_failure_propagates:
  assumes "\<forall>p\<in>set pages. has_rows p \<and> token_of p \<noteq> None"
  shows "get_full_report scripted q token
           \<lparr>script = map Inr pages @ Inl e # answers, calls = []\<rparr>
     = Some (Inl e,
             \<lparr>script = answers,
              calls = map (request_body q) (token # map token_of pages)\<rparr>)"
  using error_run [OF assms, of q token e answers "[]"] by simp

theorem fetch_failure_propagates_witness:
  "get_full_report scripted example_query None
     \<lparr>script = map Inr
        [example_page [''ga:date''] [''ga:sessions''] [example_row [''20200901''] [[''42'']]] (Some ''1000'')]
        @ Inl (ApiError ''quotaExceeded'')
        # [Inr (example_page [''ga:date''] [''ga:sessions''] [example_row [''20200903''] [[''5'']]] None)],
      calls = []\<rparr>
   = Some (Inl (ApiError ''quotaExceeded''),
           \<lparr>script =
              [Inr (example_page [''ga:date''] [''ga:sessions''] [example_row [''20200903''] [[''5'']]] None)],
            calls = [request_body example_query None, request_body example_query (Some ''1000'')]\<rparr>)"
  using fetch_failure_propagates [of
    "[example_page [''ga:date''] [''ga:sessions''] [example_row [''20200901''] [[''42'']]] (Some ''1000'')]"
    example_query None "ApiError ''quotaExceeded''"
    "[Inr (example_page [''ga:date''] [''ga:sessions''] [example_row [''20200903''] [[''5'']]] None)]"]
  by (simp add: example_page_has_rows example_page_token_of)

section \<open>The properties of the flattening\<close>

text \<open>
  C2 (flattening correctness). The page with the dimension headers \<^verbatim>\<open>date\<close> and
  \<^verbatim>\<open>sourceMedium\<close>, the metric header \<^verbatim>\<open>sessions\<close> and one row with the dimension values
  \<^verbatim>\<open>20200901\<close> and \<^verbatim>\<open>google / cpc\<close> and the one group of metric values \<^verbatim>\<open>42\<close> gives a
  table of exactly one record, which maps \<^verbatim>\<open>date\<close> to \<^verbatim>\<open>20200901\<close>, \<^verbatim>\<open>sourceMedium\<close> to
  \<^verbatim>\<open>google / cpc\<close> and \<^verbatim>\<open>sessions\<close> to \<^verbatim>\<open>42\<close>.
\<close>

theorem flattening_example:
  "response_to_data_frame
     (example_page [''date'', ''sourceMedium''] [''sessions'']
        [example_row [''20200901'', ''google / cpc''] [[''42'']]] None)
   = Inr [[(Some ''date'', ''20200901''),
           (Some ''sourceMedium'', ''google / cpc''),
           (Some ''sessions'', ''42'')]]"
  by (simp add: response_to_data_frame_def report_records_def flat_record_def
        store_all_def example_page_def example_report_def example_row_def
        dimension_headers_of_def metric_headers_of_def row_groups_def)

text \<open>
  C6 (several date ranges collapse). In a response whose reports all flatten, take a row
  of the last report with two or more groups of metric values, the last group with a
  value for every metric header. Then \<^verbatim>\<open>response_to_data_frame\<close> returns a table, and in
  the record of that row every name of a metric header has the value that the last group
  alone would give it: what the earlier groups stored under it is overwritten. If the
  names of the metric headers are distinct, the name of the \<open>j\<close>-th header has the \<open>j\<close>-th
  value of the last group.
\<close>

theorem last_group_wins:
  assumes "reports r = Some reps" and "reps \<noteq> []"
    and "\<forall>rep\<in>set reps. flattenable rep"
    and "i < length (report_rows (last reps))"
    and "row_groups (report_rows (last reps) ! i) = gs" and "2 \<le> length gs"
    and "group_values (last gs) = Some vs"
    and "length (metric_headers_of (last reps)) \<le> length vs"
  shows "\<exists>table. response_to_data_frame r = Inr table
           \<and> (\<forall>k\<in>set (map name (metric_headers_of (last reps))).
                 map_of (table ! i) k
                   = map_of (rev (zip (map name (metric_headers_of (last reps))) vs)) k)
           \<and> (distinct (map name (metric_headers_of (last reps))) \<longrightarrow>
                (\<forall>j<length (metric_headers_of (last reps)).
                   map_of (table ! i) (name (metric_headers_of (last reps) ! j))
                     = Some (vs ! j)))"
proof -
  define rep where "rep = last reps"
  define mhs where "mhs = metric_headers_of rep"
  have rep_ok: "flattenable rep" using assms(2,3) by (simp add: rep_def)
  have early: "\<forall>x\<in>set (butlast reps). flattenable x"
    using assms(3) by (auto dest: in_set_butlastD)
  from report_records_returns [OF rep_ok] obtain table where
    table: "report_records rep = Inr table"
    and recs: "\<forall>i<length (report_rows rep).
      flat_record (dimension_headers_of rep) mhs (report_rows rep ! i) = Inr (table ! i)"
    unfolding mhs_def by blast
  have whole: "response_to_data_frame r = Inr table"
    using last_report_decides [OF assms(1,2) early] table by (simp add: rep_def)
  have "flat_record (dimension_headers_of rep) mhs (report_rows rep ! i) = Inr (table ! i)"
    using recs assms(4) by (simp add: rep_def)
  then obtain d where groups: "store_groups mhs gs d = Inr (table ! i)"
    using assms(5) by (auto simp: flat_record_def Let_def rep_def)
  have ne: "gs \<noteq> []" using assms(6) by auto
  have len: "length mhs \<le> length vs" using assms(8) by (simp add: mhs_def rep_def)
  have general: "\<forall>k\<in>set (map name mhs).
      map_of (table ! i) k = map_of (rev (zip (map name mhs) vs)) k"
    using last_group_decides [OF groups ne assms(7) len] by blast
  have "map_of (table ! i) (name (mhs ! j)) = Some (vs ! j)"
    if "distinct (map name mhs)" and "j < length mhs" for j
  proof -
    have "map_of (rev (zip (map name mhs) vs)) (map name mhs ! j) = Some (vs ! j)"
      using that len by (intro map_of_rev_zip_nth) simp_all
    with general that(2) show ?thesis by simp
  qed
  with whole general show ?thesis by (auto simp: mhs_def rep_def)
qed

theorem last_group_wins_witness:
  "\<exists>table. response_to_data_frame
       (example_page [''date''] [''sessions'', ''users'']
          [example_row [''20200901''] [[''42'', ''40''], [''17'', ''9'']]] None) = Inr table
     \<and> map_of (table ! 0) (Some ''sessions'') = Some ''17''
     \<and> map_of (table ! 0) (Some ''users'') = Some ''9''"
proof -
  let ?rep = "example_report [''date''] [''sessions'', ''users'']
          [example_row [''20200901''] [[''42'', ''40''], [''17'', ''9'']]] None"
  let ?r = "example_page [''date''] [''sessions'', ''users'']
          [example_row [''20200901''] [[''42'', ''40''], [''17'', ''9'']]] None"
  let ?gs = "[\<lparr>group_values = Some [''42'', ''40''], group_other = []\<rparr>,
              \<lparr>group_values = Some [''17'', ''9''], group_other = []\<rparr>]"
  have 1: "reports ?r = Some [?rep]" by (simp add: example_page_def)
  have 2: "[?rep] \<noteq> []" by simp
  have 3: "\<forall>rep\<in>set [?rep]. flattenable rep"
    by (simp add: example_report_flattenable_iff example_row_flattenable)
  have 4: "0 < length (report_rows (last [?rep]))" by (simp add: example_report_rows)
  have 5: "row_groups (report_rows (last [?rep]) ! 0) = ?gs"
    by (simp add: example_report_rows example_row_def row_groups_def)
  have 6: "2 \<le> length ?gs" by simp
  have 7: "group_values (last ?gs) = Some [''17'', ''9'']" by simp
  have mh: "metric_headers_of ?rep
      = [\<lparr>name = Some ''sessions'', entry_other = [(''type'', JStr ''INTEGER'')]\<rparr>,
         \<lparr>name = Some ''users'', entry_other = [(''type'', JStr ''INTEGER'')]\<rparr>]"
    by (simp add: example_report_def metric_headers_of_def)
  have 8: "length (metric_headers_of (last [?rep])) \<le> length [''17'', ''9'']"
    by (simp add: mh)
  from last_group_wins [OF 1 2 3 4 5 6 7 8] obtain table where
    t: "response_to_data_frame ?r = Inr table"
    and d: "distinct (map name (metric_headers_of (last [?rep]))) \<longrightarrow>
                (\<forall>j<length (metric_headers_of (last [?rep])).
                   map_of (table ! 0) (name (metric_headers_of (last [?rep]) ! j))
                     = Some ([''17'', ''9''] ! j))"
    by blast
  from d have all: "\<forall>j<2. map_of (table ! 0) (name (metric_headers_of (last [?rep]) ! j))
                     = Some ([''17'', ''9''] ! j)"
    by (simp add: mh)
  have "map_of (table ! 0) (Some ''sessions'') = Some ''17''"
    using all [rule_format, of 0] by (simp add: mh)
  moreover have "map_of (table ! 0) (Some ''users'') = Some ''9''"
    using all [rule_format, of 1] by (simp add: mh)
  ultimately show ?thesis using t by blast
qed

text \<open>
  One record for each row, where the rows can be iterated over: for a response whose
  reports all flatten, \<^verbatim>\<open>response_to_data_frame\<close> returns a table, and the table has as
  many records as the report it is built from (the last one; the only one, for a page)
  has rows. With a list of no rows, or without the key, the table is empty.
\<close>

lemma one_record_per_row:
  assumes "reports r = Some reps" and "reps \<noteq> []"
    and "\<forall>rep\<in>set reps. flattenable rep"
  shows "\<exists>table. response_to_data_frame r = Inr table
           \<and> length table = length (report_rows (last reps))
           \<and> (report_rows (last reps) = [] \<longrightarrow> table = [])"
proof -
  have last_ok: "flattenable (last reps)" using assms(2,3) by simp
  have early: "\<forall>x\<in>set (butlast reps). flattenable x"
    using assms(3) by (auto dest: in_set_butlastD)
  from report_records_returns [OF last_ok] obtain table where
    "report_records (last reps) = Inr table" "length table = length (report_rows (last reps))"
    by blast
  then show ?thesis
    using last_report_decides [OF assms(1,2) early] by auto
qed

lemma one_record_per_row_witness:
  "(\<exists>table. response_to_data_frame
       (example_page [''date''] [''sessions'']
          [example_row [''20200901''] [[''42'']], example_row [''20200902''] [[''17'']]] None)
        = Inr table \<and> length table = 2)
   \<and> response_to_data_frame (example_page [''date''] [''sessions''] [] None) = Inr []"
proof
  let ?rws = "[example_row [''20200901''] [[''42'']], example_row [''20200902''] [[''17'']]]"
  have "reports (example_page [''date''] [''sessions''] ?rws None)
      = Some [example_report [''date''] [''sessions''] ?rws None]"
    by (simp add: example_page_def)
  moreover have "\<forall>rep\<in>set [example_report [''date''] [''sessions''] ?rws None]. flattenable rep"
    by (simp add: example_report_flattenable_iff example_row_flattenable)
  ultimately show "\<exists>table. response_to_data_frame (example_page [''date''] [''sessions''] ?rws None)
        = Inr table \<and> length table = 2"
    using one_record_per_row [of "example_page [''date''] [''sessions''] ?rws None"
        "[example_report [''date''] [''sessions''] ?rws None]"]
    by (simp add: example_report_rows numeral_2_eq_2)
next
  have "reports (example_page [''date''] [''sessions''] [] None)
      = Some [example_report [''date''] [''sessions''] [] None]"
    by (simp add: example_page_def)
  moreover have "\<forall>rep\<in>set [example_report [''date''] [''sessions''] [] None]. flattenable rep"
    by (simp add: example_report_flattenable_iff)
  ultimately show "response_to_data_frame (example_page [''date''] [''sessions''] [] None) = Inr []"
    using one_record_per_row [of "example_page [''date''] [''sessions''] [] None"
        "[example_report [''date''] [''sessions''] [] None]"]
    by (simp add: example_report_rows)
qed

text \<open>
  C8 (one record for each row; an empty row sequence gives an empty table and no
  error). The source misses the empty result that \<^verbatim>\<open>get_full_report\<close> itself hands
  on. The response to a query that matches nothing has no key \<^verbatim>\<open>'rows'\<close>;
  \<^verbatim>\<open>get_full_report\<close> makes one call and returns that response with \<^verbatim>\<open>None\<close> stored under
  \<^verbatim>\<open>'rows'\<close> (lines 183 and 199). The default \<^verbatim>\<open>[]\<close> of line 232 is for a missing key
  only, so on the response returned the loop of line 235 iterates over \<^verbatim>\<open>None\<close>:
  \<^verbatim>\<open>response_to_data_frame\<close> raises a TypeError where the table should be empty. On the
  response as the service sent it the table is empty.
\<close>

theorem empty_result_raises:
  "get_full_report scripted example_query None
     \<lparr>script = [Inr (example_empty_page Missing)], calls = []\<rparr>
   = Some (Inr (example_empty_page PyNone),
           \<lparr>script = [], calls = [request_body example_query None]\<rparr>)
   \<and> response_to_data_frame (example_empty_page PyNone) = Inl TypeError
   \<and> response_to_data_frame (example_empty_page Missing) = Inr []"
proof (intro conjI)
  show "get_full_report scripted example_query None
     \<lparr>script = [Inr (example_empty_page Missing)], calls = []\<rparr>
   = Some (Inr (example_empty_page PyNone),
           \<lparr>script = [], calls = [request_body example_query None]\<rparr>)"
    by (simp add: get_full_report_def get_report_def scripted_def page_rows_def
          page_token_def first_report_def rows_get_def pages_loop_done set_rows_def
          example_empty_page_def)
  show "response_to_data_frame (example_empty_page PyNone) = Inl TypeError"
    by (simp add: response_to_data_frame_def report_records_def example_empty_page_def)
  show "response_to_data_frame (example_empty_page Missing) = Inr []"
    by (simp add: response_to_data_frame_def report_records_def example_empty_page_def)
qed

text \<open>
  C9 (the last report wins). For a response with two or more reports, of which all but
  the last flatten, the result of \<^verbatim>\<open>response_to_data_frame\<close> is what the body of its loop
  gives for the last report, and the same as its result for the response that holds the
  last report alone: no row of an earlier report is in the table.
\<close>

theorem last_report_wins:
  assumes "reports r = Some reps" and "2 \<le> length reps"
    and "\<forall>rep\<in>set (butlast reps). flattenable rep"
  shows "response_to_data_frame r = report_records (last reps)
       \<and> response_to_data_frame r = response_to_data_frame (r\<lparr>reports := Some [last reps]\<rparr>)"
proof -
  have ne: "reps \<noteq> []" using assms(2) by auto
  have "response_to_data_frame (r\<lparr>reports := Some [last reps]\<rparr>) = report_records (last reps)"
    by (simp add: response_to_data_frame_def split: sum.splits)
  with last_report_decides [OF assms(1) ne assms(3)] show ?thesis by simp
qed

theorem last_report_wins_witness:
  "response_to_data_frame
     \<lparr>reports = Some
        [example_report [''date''] [''sessions''] [example_row [''20200901''] [[''42'']]] None,
         example_report [''source''] [''users''] [example_row [''google''] [[''7'']]] None],
      response_other = []\<rparr>
   = Inr [[(Some ''source'', ''google''), (Some ''users'', ''7'')]]"
  using last_report_wins [of
    "\<lparr>reports = Some
        [example_report [''date''] [''sessions''] [example_row [''20200901''] [[''42'']]] None,
         example_report [''source''] [''users''] [example_row [''google''] [[''7'']]] None],
      response_other = []\<rparr>"
    "[example_report [''date''] [''sessions''] [example_row [''20200901''] [[''42'']]] None,
      example_report [''source''] [''users''] [example_row [''google''] [[''7'']]] None]"]
  by (simp add: example_report_flattenable_iff example_row_flattenable)
     (simp add: report_records_def flat_record_def store_all_def example_report_def
        example_row_def dimension_headers_of_def metric_headers_of_def row_groups_def)

section \<open>The properties of the header normalisation\<close>

text \<open>
  C5 (stripping the prefix twice). The dimension headers lose their first three
  characters whatever these are: \<^verbatim>\<open>del_ga\<close> turns the header \<^verbatim>\<open>sourceMedium\<close>, which does
  not begin with \<^verbatim>\<open>ga:\<close>, into \<^verbatim>\<open>rceMedium\<close>, and applied to its own result it turns
  \<^verbatim>\<open>date\<close> into \<^verbatim>\<open>e\<close>. The name of the metric header, which is tested for the prefix,
  stays \<^verbatim>\<open>sessions\<close>.
\<close>

theorem del_ga_strips_unprefixed_dimension:
  "del_ga (example_page [''ga:date'', ''sourceMedium''] [''ga:sessions''] [] None)
     = Inr (example_page [''date'', ''rceMedium''] [''sessions''] [] None)
   \<and> del_ga (example_page [''date'', ''rceMedium''] [''sessions''] [] None)
     = Inr (example_page [''e'', ''Medium''] [''sessions''] [] None)"
  by (simp add: del_ga_def example_page_def example_report_def strip_name_def)

text \<open>
  C10 (what \<^verbatim>\<open>del_ga\<close> leaves alone). When \<^verbatim>\<open>del_ga\<close> returns a response, that response
  and the one it was given are the same once the dimension header list and the names of
  the metric header entries of the first report are blanked out in both. In particular
  the data of the first report with its rows, its continuation token, every report after
  the first and the other entries of the response are the ones that were given.
\<close>

theorem del_ga_frame:
  assumes "del_ga r = Inr r'"
  shows "blank_headers r' = blank_headers r
       \<and> response_other r' = response_other r
       \<and> (\<exists>rep rep' rest.
             reports r = Some (rep # rest) \<and> reports r' = Some (rep' # rest)
             \<and> data rep' = data rep
             \<and> nextPageToken rep' = nextPageToken rep
             \<and> report_other rep' = report_other rep)"
proof -
  from assms obtain rep rest ch mh es ds es' where
    shape: "reports r = Some (rep # rest)" "columnHeader rep = Some ch"
      "metricHeader ch = Some mh" "metricHeaderEntries mh = Some es"
      "dimensions ch = Some ds"
    and es': "strip_names es = Inr es'"
    and r': "r' = r\<lparr>reports := Some
           (rep\<lparr>columnHeader := Some
              (ch\<lparr>dimensions := Some (map (drop 3) ds),
                  metricHeader := Some (mh\<lparr>metricHeaderEntries := Some es'\<rparr>)\<rparr>)\<rparr>
            # rest)\<rparr>"
    by (rule del_ga_shape)
  have "blank_headers r' = blank_headers r"
    by (simp add: r' shape blank_headers_def blank_column_header_def blank_names_def
          strip_names_blank [OF es'])
  then show ?thesis by (simp add: r' shape)
qed

theorem del_ga_frame_witness:
  "del_ga \<lparr>reports = Some
       [example_report [''ga:date''] [''ga:sessions''] [example_row [''20200901''] [[''42'']]] (Some ''1000''),
        example_report [''ga:source''] [''ga:users''] [example_row [''google''] [[''7'']]] None],
     response_other = [(''queryCost'', JNum 1)]\<rparr>
   = Inr \<lparr>reports = Some
       [example_report [''date''] [''sessions''] [example_row [''20200901''] [[''42'']]] (Some ''1000''),
        example_report [''ga:source''] [''ga:users''] [example_row [''google''] [[''7'']]] None],
     response_other = [(''queryCost'', JNum 1)]\<rparr>
   \<and> blank_headers \<lparr>reports = Some
       [example_report [''date''] [''sessions''] [example_row [''20200901''] [[''42'']]] (Some ''1000''),
        example_report [''ga:source''] [''ga:users''] [example_row [''google''] [[''7'']]] None],
     response_other = [(''queryCost'', JNum 1)]\<rparr>
     = blank_headers \<lparr>reports = Some
       [example_report [''ga:date''] [''ga:sessions''] [example_row [''20200901''] [[''42'']]] (Some ''1000''),
        example_report [''ga:source''] [''ga:users''] [example_row [''google''] [[''7'']]] None],
     response_other = [(''queryCost'', JNum 1)]\<rparr>"
proof -
  have run: "del_ga \<lparr>reports = Some
       [example_report [''ga:date''] [''ga:sessions''] [example_row [''20200901''] [[''42'']]] (Some ''1000''),
        example_report [''ga:source''] [''ga:users''] [example_row [''google''] [[''7'']]] None],
     response_other = [(''queryCost'', JNum 1)]\<rparr>
   = Inr \<lparr>reports = Some
       [example_report [''date''] [''sessions''] [example_row [''20200901''] [[''42'']]] (Some ''1000''),
        example_report [''ga:source''] [''ga:users''] [example_row [''google''] [[''7'']]] None],
     response_other = [(''queryCost'', JNum 1)]\<rparr>"
    by (simp add: del_ga_def example_report_def strip_name_def)
  from del_ga_frame [OF run] run show ?thesis by simp
qed

end
